theory Spec2Isabelle
  imports Main "HOL-Library.Sublist" "HOL-Library.Word"
begin

section \<open>SuperScribe: the recording and transcription session\<close>

text \<open>
  A shallow embedding of \<^verbatim>\<open>superscribe_win.py\<close>: the classes \<^verbatim>\<open>AudioRecorder\<close>,
  \<^verbatim>\<open>TranscriptionService\<close> and the two hotkey handlers of \<^verbatim>\<open>SuperScribeApp\<close>.
  The objects' fields are one record that every method takes and returns. What the
  libraries do (PyAudio, wave, the Gemini client, pyperclip, pyautogui, pystray) is not
  code of the program: the outcome of each library call that the program guards with
  \<^verbatim>\<open>try\<close>/\<^verbatim>\<open>except\<close> is read from an environment record, and every method returns,
  next to its result, the list of the calls it made, in program order. A call is listed
  when it returned normally; the request to the service is listed when it is issued,
  whether it then raises or not. Log entries of level \<^verbatim>\<open>info\<close> are left out. What the
  capture thread does is not among the calls of the method that started it.
\<close>

subsection \<open>Strings\<close>

text \<open>
  Paths and texts are byte strings. \<^verbatim>\<open>str.lower()\<close> is modelled on the ASCII letters;
  no other character is lowered by Python to one of the characters of the four
  suffixes tested below, so the suffix tests do not depend on the rest.
\<close>

definition lower_char :: "char \<Rightarrow> char" where
  "lower_char c =
     (let n = (of_char c :: nat) in if 65 \<le> n \<and> n \<le> 90 then char_of (n + 32) else c)"

definition lower :: "string \<Rightarrow> string" where
  "lower s = map lower_char s"

definition endswith :: "string \<Rightarrow> string \<Rightarrow> bool" where
  "endswith s suf = suffix suf s"

definition startswith :: "string \<Rightarrow> string \<Rightarrow> bool" where
  "startswith s pre = prefix pre s"

text \<open>
  \<^verbatim>\<open>os.path.join\<close> of the Windows path module, for a first component that is not a
  UNC share and a second component that is relative and has no drive (here always
  \<^verbatim>\<open>recording_<stamp>.wav\<close>). A first component that is a bare drive (\<^verbatim>\<open>C:\<close>) or
  ends with a separator is followed by the second at once.
\<close>

definition os_path_join :: "string \<Rightarrow> string \<Rightarrow> string" where
  "os_path_join a b =
     (if a = [] then b
      else if length a = 2 \<and> a ! 1 = CHR '':'' then a @ b
      else if last a \<in> {CHR ''/'', CHR 0x5C} then a @ b
      else a @ [CHR 0x5C] @ b)"

subsection \<open>Data\<close>

type_synonym chunk = "8 word list"

text \<open>
  A file on disk is either a WAV container as the \<^verbatim>\<open>wave\<close> module writes it (the
  three header parameters and the PCM data section) or any other sequence of bytes.
  The container's header is 44 bytes long.
\<close>

datatype disk_file =
    Wav_file (nchannels: nat) (sampwidth: nat) (framerate: nat) (pcm: "8 word list")
  | Raw_file "8 word list"

fun file_size :: "disk_file \<Rightarrow> nat" where
  "file_size (Wav_file _ _ _ d) = 44 + length d"
| "file_size (Raw_file d) = length d"

text \<open>The frame count that \<^verbatim>\<open>wave.open(path, 'rb').getnframes()\<close> reads back.\<close>

definition wav_nframes :: "disk_file \<Rightarrow> nat" where
  "wav_nframes f = length (pcm f) div (sampwidth f * nchannels f)"

record history_entry =
  timestamp :: nat
  audio_file :: string
  transcription :: string

text \<open>
  The fields of \<^verbatim>\<open>SuperScribeApp\<close> (\<open>recording\<close>, \<open>history\<close>), of its
  \<^verbatim>\<open>AudioRecorder\<close> (\<open>audio_present\<close> for \<^verbatim>\<open>self.audio is not None\<close>,
  \<open>is_recording\<close>, \<open>frames\<close>, \<open>has_stream\<close> for the attribute \<^verbatim>\<open>stream\<close>,
  \<open>storage_dir\<close>), and the files on disk.
\<close>

record app =
  recording :: bool
  history :: "history_entry list"
  audio_present :: bool
  is_recording :: bool
  frames :: "chunk list"
  has_stream :: bool
  storage_dir :: string
  fs :: "string \<rightharpoonup> disk_file"

datatype level = ERROR | WARNING

datatype event =
    Stream_opened
  | Capture_thread_started
  | Stream_closed
  | File_written string
  | Service_called string disk_file
  | Clipboard_set string
  | Paste_sent
  | Notified string string
  | Logged level string

text \<open>
  How the \<^verbatim>\<open>try\<close> block of \<^verbatim>\<open>transcribe_audio_file\<close> ends once the file is known to
  exist and not to be empty: an exception with its text, a response without a text, or
  a response with its text.
\<close>

datatype reply = Raises string | No_text | Text string

text \<open>
  \<open>raises\<close>: the \<^verbatim>\<open>try\<close> block of \<^verbatim>\<open>transcribe_audio_file\<close> ends in an exception.
\<close>

fun raises :: "reply \<Rightarrow> bool" where
  "raises (Raises _) = True"
| "raises _ = False"

text \<open>
  What becomes of the WAV file in \<^verbatim>\<open>stop_recording\<close>: it is written; or
  \<^verbatim>\<open>wave.open\<close> raises and no file is touched; or a later call of the \<^verbatim>\<open>with\<close>
  block raises, when the file has already been created or truncated, and what is left
  of it on disk is given.
\<close>

datatype write_outcome = Written | Open_raises string | Write_raises string disk_file

text \<open>What one \<^verbatim>\<open>stream.read\<close> of the capture loop gives.\<close>

datatype read = Data chunk | Read_error string

text \<open>
  The outcomes of the library calls of one press/release cycle. A fault is the text of
  the exception that the call raises (\<open>None\<close>: it returns normally).
  \<open>before_request\<close> says where an exception of \<open>service\<close> comes from: from creating
  the model or reading the file, before the request is issued (\<open>True\<close>), or from the
  request or its response (\<open>False\<close>).
\<close>

record env =
  open_fault :: "string option"
  reads :: "read list"
  close_fault :: "string option"
  stamp :: string
  write_result :: write_outcome
  service :: reply
  before_request :: bool
  copy_fault :: "string option"
  paste_fault :: "string option"
  now :: nat

subsection \<open>AudioRecorder\<close>

definition channels :: nat where "channels = 1"
definition rate :: nat where "rate = 44100"
definition sample_size :: nat where "sample_size = 2"

text \<open>\<^verbatim>\<open>start_recording\<close>: the result is the returned flag, the state and the events.\<close>

definition start_recording :: "env \<Rightarrow> app \<Rightarrow> bool \<times> app \<times> event list" where
  "start_recording e s =
     (if \<not> audio_present s then
        (False, s, [Logged ERROR ''Cannot start recording - PyAudio not initialized''])
      else
        (case open_fault e of
           None \<Rightarrow>
             (True, s\<lparr>frames := [], is_recording := True, has_stream := True\<rparr>,
              [Stream_opened, Capture_thread_started])
         | Some m \<Rightarrow>
             (False, s\<lparr>frames := [], is_recording := False\<rparr>,
              [Logged ERROR (''Failed to start recording: '' @ m)])))"

text \<open>
  \<^verbatim>\<open>_record\<close>, the loop of the capture thread, run on the reads that the device
  delivers until the main thread next acts.
\<close>

fun record_loop :: "read list \<Rightarrow> app \<Rightarrow> app" where
  "record_loop [] s = s"
| "record_loop (r # rs) s =
     (if is_recording s then
        (case r of
           Data d \<Rightarrow> record_loop rs (s\<lparr>frames := frames s @ [d]\<rparr>)
         | Read_error m \<Rightarrow> s\<lparr>is_recording := False\<rparr>)
      else s)"

text \<open>
  \<^verbatim>\<open>stop_recording\<close>: the result is the returned file name (\<open>None\<close> for Python's
  \<^verbatim>\<open>None\<close>), the state and the events. The frame buffer is read as it is at the call:
  a read of the capture thread that is in flight then and lands during \<^verbatim>\<open>join\<close> is
  taken as one of the reads of \<open>record_loop\<close> before the call, which gives the same
  buffer at the write.
\<close>

definition stop_recording :: "env \<Rightarrow> app \<Rightarrow> string option \<times> app \<times> event list" where
  "stop_recording e s =
     (if \<not> is_recording s \<or> \<not> audio_present s then (None, s, [])
      else
        let s1 = s\<lparr>is_recording := False\<rparr> in
        (case (if has_stream s1 then close_fault e else None) of
           Some m \<Rightarrow> (None, s1, [Logged ERROR (''Error stopping recording: '' @ m)])
         | None \<Rightarrow>
             let closed = (if has_stream s1 then [Stream_closed] else []) in
             if frames s1 = [] then
               (None, s1, closed @ [Logged WARNING ''No audio data captured''])
             else
               let filename =
                     os_path_join (storage_dir s1) (''recording_'' @ stamp e @ ''.wav'') in
               (case write_result e of
                  Open_raises m \<Rightarrow>
                    (None, s1, closed @ [Logged ERROR (''Error stopping recording: '' @ m)])
                | Write_raises m left \<Rightarrow>
                    (None, s1\<lparr>fs := (fs s1)(filename \<mapsto> left)\<rparr>,
                     closed @ [Logged ERROR (''Error stopping recording: '' @ m)])
                | Written \<Rightarrow>
                    (Some filename,
                     s1\<lparr>fs := (fs s1)(filename \<mapsto>
                            Wav_file channels sample_size rate (concat (frames s1)))\<rparr>,
                     closed @ [File_written filename]))))"

subsection \<open>TranscriptionService\<close>

text \<open>The MIME type chosen from the file name (the same code is in \<^verbatim>\<open>main_test.py\<close>).\<close>

definition mime_type :: "string \<Rightarrow> string" where
  "mime_type path =
     (if endswith (lower path) ''.mp3'' then ''audio/mpeg''
      else if endswith (lower path) ''.wav'' then ''audio/wav''
      else if endswith (lower path) ''.m4a'' then ''audio/mp4''
      else if endswith (lower path) ''.ogg'' then ''audio/ogg''
      else ''audio/wav'')"

text \<open>
  \<^verbatim>\<open>transcribe_audio_file\<close> on the files of the disk. It returns a string on every
  path, also on the one through \<^verbatim>\<open>except Exception\<close>.
\<close>

definition transcribe_audio_file ::
  "env \<Rightarrow> (string \<rightharpoonup> disk_file) \<Rightarrow> string \<Rightarrow> string \<times> event list" where
  "transcribe_audio_file e files path =
     (case files path of
        None \<Rightarrow>
          (let error_msg = ''Error: Audio file not found: '' @ path
           in (error_msg, [Logged ERROR error_msg]))
      | Some f \<Rightarrow>
          if file_size f = 0 then
            (''Error: Audio file is empty'', [Logged ERROR ''Error: Audio file is empty''])
          else
            (case service e of
               Raises m \<Rightarrow>
                 (''Error during transcription: '' @ m,
                  (if before_request e then [] else [Service_called (mime_type path) f]) @
                  [Logged ERROR (''Transcription error: '' @ m)])
             | No_text \<Rightarrow>
                 (''Error: Received invalid response from Gemini API'',
                  [Service_called (mime_type path) f,
                   Logged ERROR ''Error: Received invalid response from Gemini API''])
             | Text t \<Rightarrow> (t, [Service_called (mime_type path) f])))"

subsection \<open>SuperScribeApp\<close>

definition paste_text_at_cursor :: "env \<Rightarrow> string \<Rightarrow> event list" where
  "paste_text_at_cursor e text =
     (case copy_fault e of
        Some m \<Rightarrow> [Logged ERROR (''Error pasting text: '' @ m)]
      | None \<Rightarrow>
          (case paste_fault e of
             Some m \<Rightarrow> [Clipboard_set text, Logged ERROR (''Error pasting text: '' @ m)]
           | None \<Rightarrow> [Clipboard_set text, Paste_sent]))"

definition on_hotkey_pressed :: "env \<Rightarrow> app \<Rightarrow> app \<times> event list" where
  "on_hotkey_pressed e s =
     (if \<not> recording s then snd (start_recording e (s\<lparr>recording := True\<rparr>))
      else (s, []))"

text \<open>
  The part of \<^verbatim>\<open>on_hotkey_released\<close> after \<^verbatim>\<open>stop_recording\<close> has returned
  (\<^verbatim>\<open>if audio_file:\<close> to the end), given what it returned (\<open>af\<close> is \<^verbatim>\<open>audio_file\<close>, \<open>t\<close> is \<^verbatim>\<open>transcription\<close>).
\<close>

definition process_audio_file ::
  "env \<Rightarrow> string option \<times> app \<times> event list \<Rightarrow> app \<times> event list" where
  "process_audio_file e r =
     (case r of (af, s, ev) \<Rightarrow>
        if af \<noteq> None \<and> af \<noteq> Some [] then
          (case transcribe_audio_file e (fs s) (the af) of (t, ev2) \<Rightarrow>
             if t \<noteq> [] \<and> \<not> startswith t ''Error:'' then
               (s\<lparr>history := history s @
                     [\<lparr>timestamp = now e, audio_file = the af, transcription = t\<rparr>]\<rparr>,
                ev @ ev2 @ paste_text_at_cursor e t @
                [Notified ''SuperScribe''
                   ''Transcription completed and pasted at cursor position''])
             else
               (s, ev @ ev2 @
                   [Logged ERROR (''Transcription failed: '' @ t),
                    Notified ''SuperScribe'' ''Transcription failed. Check log for details.'']))
        else
          (s, ev @ [Logged ERROR ''No audio file created'',
                    Notified ''SuperScribe''
                      ''Recording failed. Check microphone connection.'']))"

definition on_hotkey_released :: "env \<Rightarrow> app \<Rightarrow> app \<times> event list" where
  "on_hotkey_released e s =
     (if recording s then process_audio_file e (stop_recording e (s\<lparr>recording := False\<rparr>))
      else (s, []))"

subsection \<open>The content type as the specification words it\<close>

text \<open>
  The specification's table of content types, read on the name's extension with the
  letter case ignored: a name has an extension when it ends with one of the spellings
  of that extension. This is written from the specification, without \<open>lower\<close>, to
  compare \<open>mime_type\<close> with.
\<close>

definition mp3_names :: "string list" where
  "mp3_names = [''.mp3'', ''.mP3'', ''.Mp3'', ''.MP3'']"

definition m4a_names :: "string list" where
  "m4a_names = [''.m4a'', ''.m4A'', ''.M4a'', ''.M4A'']"

definition ogg_names :: "string list" where
  "ogg_names =
     [''.ogg'', ''.ogG'', ''.oGg'', ''.oGG'', ''.Ogg'', ''.OgG'', ''.OGg'', ''.OGG'']"

definition has_extension :: "string \<Rightarrow> string list \<Rightarrow> bool" where
  "has_extension p names = list_ex (\<lambda>x. suffix x p) names"

definition spec_content_type :: "string \<Rightarrow> string" where
  "spec_content_type p =
     (if has_extension p mp3_names then ''audio/mpeg''
      else if has_extension p m4a_names then ''audio/mp4''
      else if has_extension p ogg_names then ''audio/ogg''
      else ''audio/wav'')"

subsection \<open>A press/release cycle\<close>

text \<open>
  One cycle: the hotkey goes down, the capture thread runs on the reads of the
  environment, the hotkey goes up. \<open>cycle_audio_file\<close> is what \<^verbatim>\<open>stop_recording\<close>
  returns to \<^verbatim>\<open>on_hotkey_released\<close> in that cycle.
\<close>

definition cycle :: "env \<Rightarrow> app \<Rightarrow> app \<times> event list" where
  "cycle e s =
     (case on_hotkey_pressed e s of (s1, ev1) \<Rightarrow>
        (case on_hotkey_released e (record_loop (reads e) s1) of (s2, ev2) \<Rightarrow>
           (s2, ev1 @ ev2)))"

definition cycle_audio_file :: "env \<Rightarrow> app \<Rightarrow> string option" where
  "cycle_audio_file e s =
     fst (stop_recording e
            ((record_loop (reads e) (fst (on_hotkey_pressed e s)))\<lparr>recording := False\<rparr>))"

fun is_notification :: "event \<Rightarrow> bool" where
  "is_notification (Notified _ _) = True"
| "is_notification _ = False"

fun is_service_call :: "event \<Rightarrow> bool" where
  "is_service_call (Service_called _ _) = True"
| "is_service_call _ = False"

subsection \<open>Concrete states and environments\<close>

text \<open>The state that the two constructors set up, with a working audio device.\<close>

definition init_app :: app where
  "init_app =
     \<lparr>recording = False, history = [], audio_present = True, is_recording = False,
      frames = [], has_stream = False, storage_dir = ''recordings'', fs = Map.empty\<rparr>"

text \<open>An environment in which every library call returns normally.\<close>

definition quiet_env :: env where
  "quiet_env =
     \<lparr>open_fault = None, reads = [Data [1, 2, 3, 4], Data [5, 6, 7, 8]],
      close_fault = None, stamp = ''20240101_120000'', write_result = Written,
      service = Text ''hello world'', before_request = False, copy_fault = None,
      paste_fault = None, now = 7\<rparr>"

text \<open>The state after a press and the two chunks of \<open>quiet_env\<close>.\<close>

definition captured_app :: app where
  "captured_app = record_loop (reads quiet_env) (fst (on_hotkey_pressed quiet_env init_app))"

section \<open>Properties\<close>

subsection \<open>Helper facts: strings and lists\<close>

lemma suffix_same_length:
  "suffix a s \<Longrightarrow> suffix b s \<Longrightarrow> length a = length b \<Longrightarrow> a = b"
  by (auto simp: suffix_def)

lemma os_path_join_nonempty: "b \<noteq> [] \<Longrightarrow> os_path_join a b \<noteq> []"
  by (simp add: os_path_join_def)

lemma os_path_join_suffix: "suffix b (os_path_join a b)"
  by (auto simp add: os_path_join_def suffix_def)

lemma lower_append: "lower (a @ b) = lower a @ lower b"
  by (simp add: lower_def)

lemma length_concat_uniform:
  "\<forall>c\<in>set chunks. length c = n \<Longrightarrow> length (concat chunks) = length chunks * n"
  by (induction chunks) simp_all

text \<open>
  What \<open>lower\<close> maps to the characters of the extensions, and the names with an
  extension in terms of it.
\<close>

lemma suffix_map_iff:
  "suffix y (map f p) \<longleftrightarrow> (\<exists>x. suffix x p \<and> map f x = y)"
  by (auto simp add: suffix_def map_eq_append_conv)

lemma of_char_lower_char:
  "(of_char (lower_char c) :: nat) =
     (if 65 \<le> (of_char c :: nat) \<and> (of_char c :: nat) \<le> 90 then of_char c + 32 else of_char c)"
  by (simp add: lower_char_def Let_def take_bit_eq_mod)

lemma lower_char_eq_iff:
  "lower_char c = d \<longleftrightarrow>
     (if 65 \<le> (of_char c :: nat) \<and> (of_char c :: nat) \<le> 90 then of_char c + 32 else of_char c)
       = (of_char d :: nat)"
  using of_char_eq_iff [of "lower_char c" d, where ?'a = nat]
  by (simp only: of_char_lower_char)

lemma of_char_nat_eq: "(of_char c :: nat) = of_char d \<longleftrightarrow> c = d"
  by simp

lemma lower_char_dot: "lower_char c = CHR ''.'' \<longleftrightarrow> c = CHR ''.''"
  using of_char_nat_eq [of c "CHR ''.''"] by (auto simp add: lower_char_eq_iff)

lemma lower_char_3: "lower_char c = CHR ''3'' \<longleftrightarrow> c = CHR ''3''"
  using of_char_nat_eq [of c "CHR ''3''"] by (auto simp add: lower_char_eq_iff)

lemma lower_char_4: "lower_char c = CHR ''4'' \<longleftrightarrow> c = CHR ''4''"
  using of_char_nat_eq [of c "CHR ''4''"] by (auto simp add: lower_char_eq_iff)

lemma lower_char_m: "lower_char c = CHR ''m'' \<longleftrightarrow> c = CHR ''m'' \<or> c = CHR ''M''"
  using of_char_nat_eq [of c "CHR ''m''"] of_char_nat_eq [of c "CHR ''M''"]
  by (auto simp add: lower_char_eq_iff)

lemma lower_char_p: "lower_char c = CHR ''p'' \<longleftrightarrow> c = CHR ''p'' \<or> c = CHR ''P''"
  using of_char_nat_eq [of c "CHR ''p''"] of_char_nat_eq [of c "CHR ''P''"]
  by (auto simp add: lower_char_eq_iff)

lemma lower_char_a: "lower_char c = CHR ''a'' \<longleftrightarrow> c = CHR ''a'' \<or> c = CHR ''A''"
  using of_char_nat_eq [of c "CHR ''a''"] of_char_nat_eq [of c "CHR ''A''"]
  by (auto simp add: lower_char_eq_iff)

lemma lower_char_o: "lower_char c = CHR ''o'' \<longleftrightarrow> c = CHR ''o'' \<or> c = CHR ''O''"
  using of_char_nat_eq [of c "CHR ''o''"] of_char_nat_eq [of c "CHR ''O''"]
  by (auto simp add: lower_char_eq_iff)

lemma lower_char_g: "lower_char c = CHR ''g'' \<longleftrightarrow> c = CHR ''g'' \<or> c = CHR ''G''"
  using of_char_nat_eq [of c "CHR ''g''"] of_char_nat_eq [of c "CHR ''G''"]
  by (auto simp add: lower_char_eq_iff)

lemmas lower_char_cases =
  lower_char_dot lower_char_3 lower_char_4 lower_char_m lower_char_p lower_char_a
  lower_char_o lower_char_g

lemma lower_eq_mp3: "lower x = ''.mp3'' \<longleftrightarrow> x \<in> set mp3_names"
  by (auto simp add: lower_def mp3_names_def map_eq_Cons_conv lower_char_cases)

lemma lower_eq_m4a: "lower x = ''.m4a'' \<longleftrightarrow> x \<in> set m4a_names"
  by (auto simp add: lower_def m4a_names_def map_eq_Cons_conv lower_char_cases)

lemma lower_eq_ogg: "lower x = ''.ogg'' \<longleftrightarrow> x \<in> set ogg_names"
  by (auto simp add: lower_def ogg_names_def map_eq_Cons_conv lower_char_cases)

lemma endswith_lower_iff:
  "endswith (lower p) y \<longleftrightarrow> (\<exists>x. suffix x p \<and> lower x = y)"
  by (simp add: endswith_def lower_def suffix_map_iff)

lemma has_extension_mp3: "has_extension p mp3_names \<longleftrightarrow> endswith (lower p) ''.mp3''"
  by (auto simp add: has_extension_def list_ex_iff endswith_lower_iff lower_eq_mp3)

lemma has_extension_m4a: "has_extension p m4a_names \<longleftrightarrow> endswith (lower p) ''.m4a''"
  by (auto simp add: has_extension_def list_ex_iff endswith_lower_iff lower_eq_m4a)

lemma has_extension_ogg: "has_extension p ogg_names \<longleftrightarrow> endswith (lower p) ''.ogg''"
  by (auto simp add: has_extension_def list_ex_iff endswith_lower_iff lower_eq_ogg)

subsection \<open>Helper facts: the recorder\<close>

lemma start_recording_controller:
  "recording (fst (snd (start_recording e s))) = recording s \<and>
   history (fst (snd (start_recording e s))) = history s \<and>
   fs (fst (snd (start_recording e s))) = fs s"
  by (simp add: start_recording_def split: option.splits)

lemma start_recording_quiet:
  "filter is_notification (snd (snd (start_recording e s))) = [] \<and>
   Paste_sent \<notin> set (snd (snd (start_recording e s))) \<and>
   (\<forall>x. Clipboard_set x \<notin> set (snd (snd (start_recording e s)))) \<and>
   filter is_service_call (snd (snd (start_recording e s))) = []"
  by (simp add: start_recording_def split: option.splits)


lemma record_loop_controller:
  "recording (record_loop rs s) = recording s \<and> history (record_loop rs s) = history s \<and>
   fs (record_loop rs s) = fs s \<and> audio_present (record_loop rs s) = audio_present s \<and>
   has_stream (record_loop rs s) = has_stream s \<and> storage_dir (record_loop rs s) = storage_dir s"
  by (induction rs s rule: record_loop.induct) (auto split: read.splits)


text \<open>When \<^verbatim>\<open>stop_recording\<close> returns a file name, and what it has then done.\<close>

lemma stop_recording_writes:
  assumes "is_recording s" "audio_present s" "frames s \<noteq> []"
    and "has_stream s \<longrightarrow> close_fault e = None" and "write_result e = Written"
  shows "stop_recording e s =
           (Some (os_path_join (storage_dir s) (''recording_'' @ stamp e @ ''.wav'')),
            s\<lparr>is_recording := False,
              fs := (fs s)(os_path_join (storage_dir s) (''recording_'' @ stamp e @ ''.wav'') \<mapsto>
                      Wav_file channels sample_size rate (concat (frames s)))\<rparr>,
            (if has_stream s then [Stream_closed] else []) @
            [File_written (os_path_join (storage_dir s) (''recording_'' @ stamp e @ ''.wav''))])"
  using assms by (simp add: stop_recording_def Let_def split: option.splits write_outcome.splits)

lemma stop_recording_SomeD:
  assumes "fst (stop_recording e s) = Some p"
  shows "is_recording s \<and> audio_present s \<and> frames s \<noteq> [] \<and>
         (has_stream s \<longrightarrow> close_fault e = None) \<and> write_result e = Written \<and>
         p = os_path_join (storage_dir s) (''recording_'' @ stamp e @ ''.wav'')"
  using assms by (auto simp add: stop_recording_def Let_def split: option.splits if_splits write_outcome.splits)

lemma stop_recording_file:
  assumes "fst (stop_recording e s) = Some p"
  shows "stop_recording e s =
           (Some p,
            s\<lparr>is_recording := False,
              fs := (fs s)(p \<mapsto> Wav_file channels sample_size rate (concat (frames s)))\<rparr>,
            (if has_stream s then [Stream_closed] else []) @ [File_written p])"
    and "p \<noteq> []"
proof -
  from stop_recording_SomeD [OF assms]
  have c: "is_recording s" "audio_present s" "frames s \<noteq> []"
    "has_stream s \<longrightarrow> close_fault e = None" "write_result e = Written"
    and p: "p = os_path_join (storage_dir s) (''recording_'' @ stamp e @ ''.wav'')"
    by simp_all
  show "stop_recording e s =
           (Some p,
            s\<lparr>is_recording := False,
              fs := (fs s)(p \<mapsto> Wav_file channels sample_size rate (concat (frames s)))\<rparr>,
            (if has_stream s then [Stream_closed] else []) @ [File_written p])"
    unfolding p by (rule stop_recording_writes [OF c])
  show "p \<noteq> []"
    unfolding p by (rule os_path_join_nonempty) simp
qed

lemma stop_recording_None_fs:
  assumes "fst (stop_recording e s) = None"
  shows "fs (fst (snd (stop_recording e s))) =
           (case write_result e of
              Write_raises m left \<Rightarrow>
                if is_recording s \<and> audio_present s \<and> frames s \<noteq> [] \<and>
                   (has_stream s \<longrightarrow> close_fault e = None)
                then (fs s)(os_path_join (storage_dir s) (''recording_'' @ stamp e @ ''.wav'')
                              \<mapsto> left)
                else fs s
            | _ \<Rightarrow> fs s)"
  using assms
  by (auto simp add: stop_recording_def Let_def split: option.splits if_splits write_outcome.splits)

lemma stop_recording_controller:
  "recording (fst (snd (stop_recording e s))) = recording s \<and>
   history (fst (snd (stop_recording e s))) = history s"
  by (auto simp add: stop_recording_def Let_def split: option.splits if_splits write_outcome.splits)

lemma stop_recording_not_recording:
  "audio_present s \<Longrightarrow> \<not> is_recording (fst (snd (stop_recording e s)))"
  by (auto simp add: stop_recording_def Let_def split: option.splits if_splits write_outcome.splits)

lemma wav_readback:
  "wav_nframes (Wav_file channels sample_size rate d) = length d div 2"
  by (simp add: wav_nframes_def channels_def sample_size_def)

subsection \<open>Helper facts: the transcriber\<close>

lemma mime_type_wav: "endswith (lower p) ''.wav'' \<Longrightarrow> mime_type p = ''audio/wav''"
  unfolding mime_type_def endswith_def by (auto dest: suffix_same_length)

lemma recording_file_mime:
  "mime_type (os_path_join d (''recording_'' @ st @ ''.wav'')) = ''audio/wav''"
proof -
  have l: "lower ''.wav'' = ''.wav''"
    by code_simp
  have "suffix (''recording_'' @ st @ ''.wav'') (os_path_join d (''recording_'' @ st @ ''.wav''))"
    by (rule os_path_join_suffix)
  then obtain u where u: "os_path_join d (''recording_'' @ st @ ''.wav'') = u @ ''.wav''"
    by (auto simp add: suffix_def)
  have "suffix ''.wav'' (lower (u @ ''.wav''))"
    unfolding lower_append l by (rule suffixI) simp
  then show ?thesis
    unfolding u by (intro mime_type_wav) (simp add: endswith_def)
qed

lemma transcribe_on_file:
  assumes "files p = Some f" and "file_size f \<noteq> 0"
  shows "transcribe_audio_file e files p =
           (case service e of
              Raises m \<Rightarrow>
                (''Error during transcription: '' @ m,
                 (if before_request e then [] else [Service_called (mime_type p) f]) @
                 [Logged ERROR (''Transcription error: '' @ m)])
            | No_text \<Rightarrow>
                (''Error: Received invalid response from Gemini API'',
                 [Service_called (mime_type p) f,
                  Logged ERROR ''Error: Received invalid response from Gemini API''])
            | Text t \<Rightarrow> (t, [Service_called (mime_type p) f]))"
  using assms by (simp add: transcribe_audio_file_def)

lemma transcribe_events:
  "filter is_notification (snd (transcribe_audio_file e files p)) = [] \<and>
   Paste_sent \<notin> set (snd (transcribe_audio_file e files p)) \<and>
   Capture_thread_started \<notin> set (snd (transcribe_audio_file e files p)) \<and>
   (\<forall>x. Clipboard_set x \<notin> set (snd (transcribe_audio_file e files p)))"
  by (simp add: transcribe_audio_file_def Let_def split: option.splits reply.splits)

lemma transcribe_request_type:
  "Service_called m f \<in> set (snd (transcribe_audio_file e files p)) \<Longrightarrow>
     m = mime_type p \<and> files p = Some f \<and> file_size f \<noteq> 0"
  by (auto simp add: transcribe_audio_file_def Let_def
           split: option.splits reply.splits if_splits)

subsection \<open>Helper facts: the handlers\<close>

lemma paste_events:
  "filter is_notification (paste_text_at_cursor e t) = [] \<and>
   filter is_service_call (paste_text_at_cursor e t) = [] \<and>
   (Clipboard_set x \<in> set (paste_text_at_cursor e t) \<longleftrightarrow> copy_fault e = None \<and> x = t) \<and>
   (Paste_sent \<in> set (paste_text_at_cursor e t) \<longleftrightarrow> copy_fault e = None \<and> paste_fault e = None)"
  by (auto simp add: paste_text_at_cursor_def split: option.splits)

lemma pressed_idle:
  "\<not> recording s \<Longrightarrow>
     on_hotkey_pressed e s = snd (start_recording e (s\<lparr>recording := True\<rparr>))"
  by (simp add: on_hotkey_pressed_def)

lemma pressed_idle_controller:
  assumes "\<not> recording s"
  shows "recording (fst (on_hotkey_pressed e s)) \<and>
         history (fst (on_hotkey_pressed e s)) = history s \<and>
         fs (fst (on_hotkey_pressed e s)) = fs s"
  using assms start_recording_controller [of e "s\<lparr>recording := True\<rparr>"]
  by (simp add: pressed_idle)


lemma pressed_quiet:
  "filter is_notification (snd (on_hotkey_pressed e s)) = [] \<and>
   Paste_sent \<notin> set (snd (on_hotkey_pressed e s)) \<and>
   (\<forall>x. Clipboard_set x \<notin> set (snd (on_hotkey_pressed e s))) \<and>
   filter is_service_call (snd (on_hotkey_pressed e s)) = []"
  using start_recording_quiet [of e "s\<lparr>recording := True\<rparr>"]
  by (simp add: on_hotkey_pressed_def)

lemma released_file:
  assumes "recording s" and "fst (stop_recording e (s\<lparr>recording := False\<rparr>)) = Some p"
  shows "on_hotkey_released e s =
           process_audio_file e
             (Some p,
              s\<lparr>recording := False, is_recording := False,
                fs := (fs s)(p \<mapsto> Wav_file channels sample_size rate (concat (frames s)))\<rparr>,
              (if has_stream s then [Stream_closed] else []) @ [File_written p])"
  using assms(1) stop_recording_file(1) [OF assms(2)]
  by (simp add: on_hotkey_released_def)

lemma process_file:
  assumes "p \<noteq> []" and "fs s p = Some f" and "file_size f \<noteq> 0"
  shows "process_audio_file e (Some p, s, ev) =
           (case service e of
              Raises m \<Rightarrow>
                (s\<lparr>history := history s @
                     [\<lparr>timestamp = now e, audio_file = p,
                       transcription = ''Error during transcription: '' @ m\<rparr>]\<rparr>,
                 ev @ (if before_request e then [] else [Service_called (mime_type p) f]) @
                 [Logged ERROR (''Transcription error: '' @ m)] @
                 paste_text_at_cursor e (''Error during transcription: '' @ m) @
                 [Notified ''SuperScribe''
                    ''Transcription completed and pasted at cursor position''])
            | No_text \<Rightarrow>
                (s, ev @ [Service_called (mime_type p) f,
                          Logged ERROR ''Error: Received invalid response from Gemini API'',
                          Logged ERROR
                            ''Transcription failed: Error: Received invalid response from Gemini API'',
                          Notified ''SuperScribe'' ''Transcription failed. Check log for details.''])
            | Text t \<Rightarrow>
                if t \<noteq> [] \<and> \<not> startswith t ''Error:'' then
                  (s\<lparr>history := history s @
                       [\<lparr>timestamp = now e, audio_file = p, transcription = t\<rparr>]\<rparr>,
                   ev @ [Service_called (mime_type p) f] @ paste_text_at_cursor e t @
                   [Notified ''SuperScribe''
                      ''Transcription completed and pasted at cursor position''])
                else
                  (s, ev @ [Service_called (mime_type p) f,
                            Logged ERROR (''Transcription failed: '' @ t),
                            Notified ''SuperScribe''
                              ''Transcription failed. Check log for details.'']))"
  using assms
  by (simp add: process_audio_file_def transcribe_on_file startswith_def split: reply.splits)

lemma released_file_outcome:
  assumes "recording s" and "fst (stop_recording e (s\<lparr>recording := False\<rparr>)) = Some p"
  shows "on_hotkey_released e s =
           (case transcribe_audio_file e
                   ((fs s)(p \<mapsto> Wav_file channels sample_size rate (concat (frames s)))) p
            of (t, ev2) \<Rightarrow>
              if t \<noteq> [] \<and> \<not> startswith t ''Error:'' then
                (s\<lparr>recording := False, is_recording := False,
                   fs := (fs s)(p \<mapsto> Wav_file channels sample_size rate (concat (frames s))),
                   history := history s @
                     [\<lparr>timestamp = now e, audio_file = p, transcription = t\<rparr>]\<rparr>,
                 (if has_stream s then [Stream_closed] else []) @ [File_written p] @ ev2 @
                 paste_text_at_cursor e t @
                 [Notified ''SuperScribe''
                    ''Transcription completed and pasted at cursor position''])
              else
                (s\<lparr>recording := False, is_recording := False,
                   fs := (fs s)(p \<mapsto> Wav_file channels sample_size rate (concat (frames s)))\<rparr>,
                 (if has_stream s then [Stream_closed] else []) @ [File_written p] @ ev2 @
                 [Logged ERROR (''Transcription failed: '' @ t),
                  Notified ''SuperScribe'' ''Transcription failed. Check log for details.'']))"
proof -
  have ne: "p \<noteq> []"
    by (rule stop_recording_file(2) [OF assms(2)])
  show ?thesis
    unfolding released_file [OF assms(1,2)]
    using ne by (simp add: process_audio_file_def split: prod.splits)
qed

lemma released_file_text:
  assumes "recording s" and "fst (stop_recording e (s\<lparr>recording := False\<rparr>)) = Some p"
    and "service e = Text t" and "t \<noteq> []" and "\<not> startswith t ''Error:''"
  shows "on_hotkey_released e s =
           (s\<lparr>recording := False, is_recording := False,
              fs := (fs s)(p \<mapsto> Wav_file channels sample_size rate (concat (frames s))),
              history := history s @ [\<lparr>timestamp = now e, audio_file = p, transcription = t\<rparr>]\<rparr>,
            (if has_stream s then [Stream_closed] else []) @
            [File_written p,
             Service_called (mime_type p) (Wav_file channels sample_size rate (concat (frames s)))] @
            paste_text_at_cursor e t @
            [Notified ''SuperScribe'' ''Transcription completed and pasted at cursor position''])"
proof -
  have ne: "p \<noteq> []"
    by (rule stop_recording_file(2) [OF assms(2)])
  show ?thesis
    unfolding released_file [OF assms(1,2)]
    using ne assms(3,4,5)
    by (subst process_file [where f = "Wav_file channels sample_size rate (concat (frames s))"])
       simp_all
qed

lemma cycle_unfold:
  "cycle e s =
     (fst (on_hotkey_released e (record_loop (reads e) (fst (on_hotkey_pressed e s)))),
      snd (on_hotkey_pressed e s) @
      snd (on_hotkey_released e (record_loop (reads e) (fst (on_hotkey_pressed e s)))))"
  by (simp add: cycle_def split: prod.splits)

lemma captured_app_eq:
  "captured_app =
     \<lparr>recording = True, history = [], audio_present = True, is_recording = True,
      frames = [[1, 2, 3, 4], [5, 6, 7, 8]], has_stream = True, storage_dir = ''recordings'',
      fs = Map.empty\<rparr>"
  by (simp add: captured_app_def quiet_env_def init_app_def on_hotkey_pressed_def
      start_recording_def)

text \<open>Facts for evaluating the handlers on the concrete states.\<close>

lemma quiet_mime:
  "mime_type (os_path_join ''recordings'' ''recording_20240101_120000.wav'') = ''audio/wav''"
  using recording_file_mime [of "''recordings''" "''20240101_120000''"] by simp

lemma quiet_path_nonempty:
  "os_path_join ''recordings'' ''recording_20240101_120000.wav'' \<noteq> []"
  by (rule os_path_join_nonempty) simp

lemmas eval_defs =
  cycle_def cycle_audio_file_def on_hotkey_pressed_def on_hotkey_released_def
  start_recording_def stop_recording_def process_audio_file_def transcribe_audio_file_def
  paste_text_at_cursor_def startswith_def init_app_def quiet_env_def Let_def
  channels_def sample_size_def rate_def quiet_mime quiet_path_nonempty

text \<open>
  A request that raises, whatever its message, is filed as a transcript. In every
  outcome of the transcription the file that was written stays on disk and the flag is
  cleared.
\<close>

lemma released_transport_failure:
  assumes "recording s" and "fst (stop_recording e (s\<lparr>recording := False\<rparr>)) = Some p"
    and "service e = Raises m"
  shows "history (fst (on_hotkey_released e s)) =
           history s @
           [\<lparr>timestamp = now e, audio_file = p,
             transcription = ''Error during transcription: '' @ m\<rparr>] \<and>
         filter is_notification (snd (on_hotkey_released e s)) =
           [Notified ''SuperScribe'' ''Transcription completed and pasted at cursor position'']"
proof -
  let ?w = "Wav_file channels sample_size rate (concat (frames s))"
  have tr: "transcribe_audio_file e ((fs s)(p \<mapsto> ?w)) p =
              (''Error during transcription: '' @ m,
               (if before_request e then [] else [Service_called (mime_type p) ?w]) @
               [Logged ERROR (''Transcription error: '' @ m)])"
    by (subst transcribe_on_file [where f = ?w]) (simp_all add: assms(3))
  have ok: "\<not> startswith (''Error during transcription: '' @ m) ''Error:''"
    by (simp add: startswith_def)
  have pe: "filter is_notification (paste_text_at_cursor e (''Error during transcription: '' @ m)) = []"
    using paste_events by blast
  show ?thesis
    using ok pe by (simp add: released_file_outcome [OF assms(1,2)] tr)
qed

lemma released_file_retained:
  assumes "recording s" and "fst (stop_recording e (s\<lparr>recording := False\<rparr>)) = Some p"
  shows "fs (fst (on_hotkey_released e s)) p =
           Some (Wav_file channels sample_size rate (concat (frames s))) \<and>
         \<not> recording (fst (on_hotkey_released e s))"
  unfolding released_file_outcome [OF assms]
  by (simp split: prod.splits)


lemma released_idle:
  assumes "recording s" and "audio_present s"
  shows "\<not> recording (fst (on_hotkey_released e s)) \<and>
         \<not> is_recording (fst (on_hotkey_released e s))"
  using assms stop_recording_controller [of e "s\<lparr>recording := False\<rparr>"]
        stop_recording_not_recording [of "s\<lparr>recording := False\<rparr>" e]
  by (cases "stop_recording e (s\<lparr>recording := False\<rparr>)")
     (simp add: on_hotkey_released_def process_audio_file_def split: prod.splits)

subsection \<open>AudioRecorder\<close>

text \<open>
  C7. When no chunk was captured, \<^verbatim>\<open>stop_recording\<close> returns \<^verbatim>\<open>None\<close> (a value, not
  an exception), leaves the files on disk as they were and writes no file. This holds
  whatever the library calls do.
\<close>

theorem C7_stop_without_chunks:
  "frames s = [] \<Longrightarrow>
     fst (stop_recording e s) = None \<and>
     fs (fst (snd (stop_recording e s))) = fs s \<and>
     (\<forall>p. File_written p \<notin> set (snd (snd (stop_recording e s))))"
  by (simp add: stop_recording_def Let_def split: option.splits)

theorem C7_stop_without_chunks_witness:
  "is_recording (fst (snd (start_recording quiet_env init_app))) \<and>
   frames (fst (snd (start_recording quiet_env init_app))) = [] \<and>
   fst (stop_recording quiet_env (fst (snd (start_recording quiet_env init_app)))) = None \<and>
   fs (fst (snd (stop_recording quiet_env (fst (snd (start_recording quiet_env init_app))))))
     = Map.empty"
proof -
  have h: "frames (fst (snd (start_recording quiet_env init_app))) = []"
    by (simp add: start_recording_def init_app_def quiet_env_def)
  have r: "is_recording (fst (snd (start_recording quiet_env init_app)))"
    by (simp add: start_recording_def init_app_def quiet_env_def)
  have f: "fs (fst (snd (start_recording quiet_env init_app))) = Map.empty"
    by (simp add: start_recording_def init_app_def quiet_env_def)
  show ?thesis
    using C7_stop_without_chunks [OF h, of quiet_env] h r f by simp
qed

text \<open>
  C6. \<^verbatim>\<open>stop_recording\<close> is called with N chunks of C bytes each in the frame buffer
  (N at least 1). If the recorder is still recording (the capture loop has not ended on
  a read error) and closing the stream, opening the file and writing it raise nothing,
  it returns the name of one file, writes that file and no other, and the file's PCM
  data section is the chunks in capture order: N times C bytes, read back as
  N times C div 2 frames (mono, two bytes a sample). In every other case it returns
  \<^verbatim>\<open>None\<close>. Then no file is touched, except when a call raises after
  \<^verbatim>\<open>wave.open\<close> has created or truncated the file: what was written of it by then
  stays on disk under the recording's name.
\<close>

theorem C6_stop_writes_chunks:
  assumes "frames s = chunks" and "chunks \<noteq> []" and "\<forall>c\<in>set chunks. length c = C"
  shows "if is_recording s \<and> audio_present s \<and>
            (has_stream s \<longrightarrow> close_fault e = None) \<and> write_result e = Written then
           (\<exists>p f. fst (stop_recording e s) = Some p \<and>
                  fs (fst (snd (stop_recording e s))) p = Some f \<and>
                  (\<forall>q. q \<noteq> p \<longrightarrow> fs (fst (snd (stop_recording e s))) q = fs s q) \<and>
                  snd (snd (stop_recording e s)) =
                    (if has_stream s then [Stream_closed] else []) @ [File_written p] \<and>
                  pcm f = concat chunks \<and>
                  length (pcm f) = length chunks * C \<and>
                  wav_nframes f = (length chunks * C) div 2)
         else fst (stop_recording e s) = None \<and>
              fs (fst (snd (stop_recording e s))) =
                (case write_result e of
                   Write_raises m left \<Rightarrow>
                     if is_recording s \<and> audio_present s \<and>
                        (has_stream s \<longrightarrow> close_fault e = None)
                     then (fs s)(os_path_join (storage_dir s)
                                   (''recording_'' @ stamp e @ ''.wav'') \<mapsto> left)
                     else fs s
                 | _ \<Rightarrow> fs s)"
proof (cases "is_recording s \<and> audio_present s \<and>
              (has_stream s \<longrightarrow> close_fault e = None) \<and> write_result e = Written")
  case True
  have fr: "frames s \<noteq> []"
    using assms(1,2) by simp
  have len: "length (concat chunks) = length chunks * C"
    by (rule length_concat_uniform [OF assms(3)])
  from True have c: "is_recording s" "audio_present s"
    and cf: "has_stream s \<longrightarrow> close_fault e = None" and wf: "write_result e = Written"
    by simp_all
  note w = stop_recording_writes [OF c fr cf wf]
  show ?thesis
    using True len by (simp add: w assms(1) wav_readback)
next
  case False
  have none: "fst (stop_recording e s) = None"
  proof (cases "fst (stop_recording e s)")
    case None
    then show ?thesis .
  next
    case (Some p)
    from stop_recording_SomeD [OF Some] False show ?thesis
      by simp
  qed
  have fr: "frames s \<noteq> []"
    using assms(1,2) by simp
  show ?thesis
    using False none fr stop_recording_None_fs [OF none]
    by (cases "write_result e") simp_all
qed

theorem C6_stop_writes_chunks_witness:
  "is_recording captured_app \<and> audio_present captured_app \<and>
   frames captured_app = [[1, 2, 3, 4], [5, 6, 7, 8]] \<and>
   fst (stop_recording quiet_env captured_app)
     = Some (os_path_join ''recordings'' ''recording_20240101_120000.wav'') \<and>
   length (pcm (the (fs (fst (snd (stop_recording quiet_env captured_app)))
                       (os_path_join ''recordings'' ''recording_20240101_120000.wav'')))) = 2 * 4 \<and>
   wav_nframes (the (fs (fst (snd (stop_recording quiet_env captured_app)))
                       (os_path_join ''recordings'' ''recording_20240101_120000.wav''))) = 4"
proof -
  have h1: "is_recording captured_app" and h2: "audio_present captured_app"
    and h3: "frames captured_app = [[1, 2, 3, 4], [5, 6, 7, 8]]"
    by (simp_all add: captured_app_eq)
  have h4: "[[1, 2, 3, 4], [5, 6, 7, 8]] \<noteq> ([] :: chunk list)"
    by simp
  have h5: "\<forall>c\<in>set [[1, 2, 3, 4], [5, 6, 7, 8 :: 8 word]]. length c = 4"
    by simp
  have h6: "(has_stream captured_app \<longrightarrow> close_fault quiet_env = None) \<and>
            write_result quiet_env = Written"
    by (simp add: quiet_env_def)
  have p: "fst (stop_recording quiet_env captured_app)
             = Some (os_path_join ''recordings'' ''recording_20240101_120000.wav'')"
    by (simp add: captured_app_eq eval_defs)
  show ?thesis
    using C6_stop_writes_chunks [OF h3 h4 h5, of quiet_env] h1 h2 h3 h6 p
    by auto
qed

text \<open>
  Chunks in the buffer do not always give a file: with two chunks captured and a
  \<^verbatim>\<open>wave.open\<close> that raises (the storage directory is gone), \<^verbatim>\<open>stop_recording\<close>
  returns \<^verbatim>\<open>None\<close> and the file does not exist.
\<close>

theorem C6_write_fault_counterexample:
  "is_recording captured_app \<and> audio_present captured_app \<and>
   frames captured_app = [[1, 2, 3, 4], [5, 6, 7, 8]] \<and>
   fst (stop_recording (quiet_env\<lparr>write_result := Open_raises ''No such file or directory''\<rparr>)
          captured_app) = None \<and>
   fs (fst (snd (stop_recording
                   (quiet_env\<lparr>write_result := Open_raises ''No such file or directory''\<rparr>)
                   captured_app)))
      (os_path_join ''recordings'' ''recording_20240101_120000.wav'') = None"
  by (simp add: captured_app_eq eval_defs)

subsection \<open>TranscriptionService\<close>

text \<open>
  C5. \<^verbatim>\<open>transcribe_audio_file\<close> checks first that the file exists and is not empty.
  For a path that names no file it returns the message
  \<^verbatim>\<open>Error: Audio file not found: <path>\<close>, for a file of zero bytes the message
  \<^verbatim>\<open>Error: Audio file is empty\<close>. In both cases the result is a returned value that
  starts with \<^verbatim>\<open>Error:\<close> (which the controller reads as a failure), and no request is
  sent to the service.
\<close>

theorem C5_transcribe_validates_file:
  "(files path = None \<longrightarrow>
      transcribe_audio_file e files path =
        (''Error: Audio file not found: '' @ path,
         [Logged ERROR (''Error: Audio file not found: '' @ path)])) \<and>
   (\<forall>f. files path = Some f \<and> file_size f = 0 \<longrightarrow>
      transcribe_audio_file e files path =
        (''Error: Audio file is empty'', [Logged ERROR ''Error: Audio file is empty''])) \<and>
   ((files path = None \<or> (\<exists>f. files path = Some f \<and> file_size f = 0)) \<longrightarrow>
      startswith (fst (transcribe_audio_file e files path)) ''Error:'' \<and>
      (\<forall>m f. Service_called m f \<notin> set (snd (transcribe_audio_file e files path))))"
  by (auto simp add: transcribe_audio_file_def Let_def startswith_def)

theorem C5_transcribe_validates_file_witness:
  "(Map.empty(''empty.wav'' \<mapsto> Raw_file [])) ''missing.wav'' = None \<and>
   (Map.empty(''empty.wav'' \<mapsto> Raw_file [])) ''empty.wav'' = Some (Raw_file []) \<and>
   file_size (Raw_file []) = 0 \<and>
   transcribe_audio_file quiet_env (Map.empty(''empty.wav'' \<mapsto> Raw_file [])) ''missing.wav''
     = (''Error: Audio file not found: missing.wav'',
        [Logged ERROR ''Error: Audio file not found: missing.wav'']) \<and>
   transcribe_audio_file quiet_env (Map.empty(''empty.wav'' \<mapsto> Raw_file [])) ''empty.wav''
     = (''Error: Audio file is empty'', [Logged ERROR ''Error: Audio file is empty''])"
proof -
  have a: "(Map.empty(''empty.wav'' \<mapsto> Raw_file [])) ''missing.wav'' = None"
    by simp
  have b: "(Map.empty(''empty.wav'' \<mapsto> Raw_file [])) ''empty.wav'' = Some (Raw_file [])"
    by simp
  have c: "file_size (Raw_file []) = 0"
    by simp
  show ?thesis
    using C5_transcribe_validates_file
            [of "Map.empty(''empty.wav'' \<mapsto> Raw_file [])" "''missing.wav''" quiet_env]
          C5_transcribe_validates_file
            [of "Map.empty(''empty.wav'' \<mapsto> Raw_file [])" "''empty.wav''" quiet_env]
          a b c
    by simp
qed

text \<open>
  C8. The content type that \<^verbatim>\<open>transcribe_audio_file\<close> infers from a file name is the
  one of the specification's table, the extension read with the letter case ignored:
  \<^verbatim>\<open>.mp3\<close> gives \<^verbatim>\<open>audio/mpeg\<close>, \<^verbatim>\<open>.m4a\<close> gives \<^verbatim>\<open>audio/mp4\<close>, \<^verbatim>\<open>.ogg\<close> gives
  \<^verbatim>\<open>audio/ogg\<close>, and \<^verbatim>\<open>.wav\<close> or any other name gives \<^verbatim>\<open>audio/wav\<close>. Every request
  that is sent to the service carries this type.
\<close>

theorem C8_mime_type_by_extension:
  "mime_type p = spec_content_type p \<and>
   (\<forall>m f. Service_called m f \<in> set (snd (transcribe_audio_file e files p)) \<longrightarrow>
          m = spec_content_type p)"
proof -
  have eq: "mime_type p = spec_content_type p"
    unfolding spec_content_type_def has_extension_mp3 has_extension_m4a has_extension_ogg
    unfolding mime_type_def endswith_def
    by (auto dest: suffix_same_length)
  show ?thesis
    using eq transcribe_request_type [of _ _ e files p] by auto
qed

theorem C8_mime_type_by_extension_witness:
  "mime_type ''a.mp3'' = ''audio/mpeg'' \<and> mime_type ''A.MP3'' = ''audio/mpeg'' \<and>
   mime_type ''a.m4a'' = ''audio/mp4'' \<and> mime_type ''a.ogg'' = ''audio/ogg'' \<and>
   mime_type ''a.wav'' = ''audio/wav'' \<and> mime_type ''a.flac'' = ''audio/wav'' \<and>
   Service_called ''audio/mpeg'' (Raw_file [1])
     \<in> set (snd (transcribe_audio_file quiet_env (Map.empty(''A.MP3'' \<mapsto> Raw_file [1])) ''A.MP3''))"
proof -
  have s1: "spec_content_type ''a.mp3'' = ''audio/mpeg''" by code_simp
  have s2: "spec_content_type ''A.MP3'' = ''audio/mpeg''" by code_simp
  have s3: "spec_content_type ''a.m4a'' = ''audio/mp4''" by code_simp
  have s4: "spec_content_type ''a.ogg'' = ''audio/ogg''" by code_simp
  have s5: "spec_content_type ''a.wav'' = ''audio/wav''" by code_simp
  have s6: "spec_content_type ''a.flac'' = ''audio/wav''" by code_simp
  have h: "Service_called (mime_type ''A.MP3'') (Raw_file [1])
     \<in> set (snd (transcribe_audio_file quiet_env (Map.empty(''A.MP3'' \<mapsto> Raw_file [1])) ''A.MP3''))"
    by (simp add: transcribe_audio_file_def quiet_env_def)
  have r1: "mime_type ''a.mp3'' = ''audio/mpeg''"
    using C8_mime_type_by_extension [of "''a.mp3''"] s1 by simp
  have r2: "mime_type ''A.MP3'' = ''audio/mpeg''"
    using C8_mime_type_by_extension
            [of "''A.MP3''" quiet_env "Map.empty(''A.MP3'' \<mapsto> Raw_file [1])"] h s2
    by simp
  have r3: "mime_type ''a.m4a'' = ''audio/mp4''"
    using C8_mime_type_by_extension [of "''a.m4a''"] s3 by simp
  have r4: "mime_type ''a.ogg'' = ''audio/ogg''"
    using C8_mime_type_by_extension [of "''a.ogg''"] s4 by simp
  have r5: "mime_type ''a.wav'' = ''audio/wav''"
    using C8_mime_type_by_extension [of "''a.wav''"] s5 by simp
  have r6: "mime_type ''a.flac'' = ''audio/wav''"
    using C8_mime_type_by_extension [of "''a.flac''"] s6 by simp
  show ?thesis
    using r1 r2 r3 r4 r5 r6 h by simp
qed

subsection \<open>SuperScribeApp\<close>






text \<open>
  C3. A full cycle from the idle state, in which the hotkey-up produces the file \<open>p\<close>
  and the service returns \<^verbatim>\<open>hello world\<close>, appends exactly one history entry, with
  that file and that text, ends with the flag cleared and the recorder stopped, and
  emits the success notification and no other. The text is put on the clipboard
  exactly when the clipboard call does not raise, and the paste keystroke is sent
  exactly when neither the clipboard call nor the keystroke call raises; an exception
  of either is caught and logged, and does not change the rest.
\<close>
theorem C3_cycle_hello_world:
  assumes "\<not> recording s" and "cycle_audio_file e s = Some p"
    and "service e = Text ''hello world''"
  shows "history (fst (cycle e s)) =
           history s @
           [\<lparr>timestamp = now e, audio_file = p, transcription = ''hello world''\<rparr>] \<and>
         \<not> recording (fst (cycle e s)) \<and>
         \<not> is_recording (fst (cycle e s)) \<and>
         filter is_notification (snd (cycle e s)) =
           [Notified ''SuperScribe'' ''Transcription completed and pasted at cursor position''] \<and>
         (Clipboard_set ''hello world'' \<in> set (snd (cycle e s)) \<longleftrightarrow> copy_fault e = None) \<and>
         (Paste_sent \<in> set (snd (cycle e s)) \<longleftrightarrow> copy_fault e = None \<and> paste_fault e = None)"
proof -
  let ?s2 = "record_loop (reads e) (fst (on_hotkey_pressed e s))"
  have rec: "recording ?s2" and hist: "history ?s2 = history s"
    using pressed_idle_controller [OF assms(1), of e] record_loop_controller by simp_all
  have fl: "fst (stop_recording e (?s2\<lparr>recording := False\<rparr>)) = Some p"
    using assms(2) by (simp add: cycle_audio_file_def)
  have t: "''hello world'' \<noteq> []" "\<not> startswith ''hello world'' ''Error:''"
    by (simp_all add: startswith_def)
  note r = released_file_text [OF rec fl assms(3) t]
  show ?thesis
    using pressed_quiet [of e s] paste_events [of e "''hello world''"]
    by (simp add: cycle_unfold r hist)
qed

theorem C3_cycle_hello_world_witness:
  "\<not> recording init_app \<and>
   cycle_audio_file quiet_env init_app =
     Some (os_path_join ''recordings'' ''recording_20240101_120000.wav'') \<and>
   service quiet_env = Text ''hello world'' \<and>
   history (fst (cycle quiet_env init_app)) =
     [\<lparr>timestamp = 7,
       audio_file = os_path_join ''recordings'' ''recording_20240101_120000.wav'',
       transcription = ''hello world''\<rparr>] \<and>
   \<not> recording (fst (cycle quiet_env init_app)) \<and>
   Clipboard_set ''hello world'' \<in> set (snd (cycle quiet_env init_app)) \<and>
   Paste_sent \<in> set (snd (cycle quiet_env init_app))"
proof -
  have h1: "\<not> recording init_app"
    by (simp add: init_app_def)
  have h2: "cycle_audio_file quiet_env init_app =
              Some (os_path_join ''recordings'' ''recording_20240101_120000.wav'')"
    by (simp add: eval_defs)
  have h3: "service quiet_env = Text ''hello world''"
    by (simp add: quiet_env_def)
  have e: "history init_app = [] \<and> now quiet_env = 7 \<and> copy_fault quiet_env = None \<and>
           paste_fault quiet_env = None"
    by (simp add: init_app_def quiet_env_def)
  show ?thesis
    using C3_cycle_hello_world [OF h1 h2 h3] h1 h2 h3 e by simp
qed

text \<open>
  The text is not always delivered: in a full cycle that produces a file and in which
  the service returns \<^verbatim>\<open>hello world\<close>, but the simulated keystroke raises, no
  paste is sent, and the success notification is emitted all the same.
\<close>

theorem C3_paste_fault_counterexample:
  "\<not> recording init_app \<and>
   cycle_audio_file (quiet_env\<lparr>paste_fault := Some ''fail-safe triggered''\<rparr>) init_app =
     Some (os_path_join ''recordings'' ''recording_20240101_120000.wav'') \<and>
   service (quiet_env\<lparr>paste_fault := Some ''fail-safe triggered''\<rparr>) = Text ''hello world'' \<and>
   Paste_sent \<notin> set (snd (cycle (quiet_env\<lparr>paste_fault := Some ''fail-safe triggered''\<rparr>) init_app)) \<and>
   filter is_notification (snd (cycle (quiet_env\<lparr>paste_fault := Some ''fail-safe triggered''\<rparr>) init_app)) =
     [Notified ''SuperScribe'' ''Transcription completed and pasted at cursor position'']"
  by (simp add: eval_defs)

text \<open>
  C4. A cycle that produces a file and whose request to the service raises (a transport
  failure). \<^verbatim>\<open>transcribe_audio_file\<close> returns \<^verbatim>\<open>Error during transcription: timed out\<close>,
  which does not start with \<^verbatim>\<open>Error:\<close>. The controller therefore takes it for a
  transcript: it appends a history entry with this message, puts the message on the
  clipboard, pastes it, and emits the success notification and no failure notification.
\<close>

theorem C4_transport_failure_cycle:
  "\<not> recording init_app \<and>
   cycle_audio_file (quiet_env\<lparr>service := Raises ''timed out''\<rparr>) init_app =
     Some (os_path_join ''recordings'' ''recording_20240101_120000.wav'') \<and>
   history (fst (cycle (quiet_env\<lparr>service := Raises ''timed out''\<rparr>) init_app)) =
     [\<lparr>timestamp = 7,
       audio_file = os_path_join ''recordings'' ''recording_20240101_120000.wav'',
       transcription = ''Error during transcription: timed out''\<rparr>] \<and>
   filter is_notification (snd (cycle (quiet_env\<lparr>service := Raises ''timed out''\<rparr>) init_app)) =
     [Notified ''SuperScribe'' ''Transcription completed and pasted at cursor position''] \<and>
   Clipboard_set ''Error during transcription: timed out''
     \<in> set (snd (cycle (quiet_env\<lparr>service := Raises ''timed out''\<rparr>) init_app)) \<and>
   Paste_sent \<in> set (snd (cycle (quiet_env\<lparr>service := Raises ''timed out''\<rparr>) init_app))"
  by (simp add: eval_defs)

text \<open>
  C9. On a hotkey-up that produces an audio file, \<^verbatim>\<open>on_hotkey_released\<close> itself runs
  the transcriber. It starts no thread. A request to the service is among the
  handler's own calls: exactly one (content type \<^verbatim>\<open>audio/wav\<close>, the file just
  written), or none when creating the model or reading the file raises before the
  request. The handler's last call, before it returns, is the notification chosen
  from the string that the transcriber returned. The only thread that the program
  starts is the capture thread of \<^verbatim>\<open>start_recording\<close>.
\<close>

theorem C9_transcription_in_handler:
  assumes "recording s" and "fst (stop_recording e (s\<lparr>recording := False\<rparr>)) = Some p"
  shows "filter is_service_call (snd (on_hotkey_released e s)) =
           (if raises (service e) \<and> before_request e then []
            else [Service_called ''audio/wav''
                    (Wav_file channels sample_size rate (concat (frames s)))]) \<and>
         Capture_thread_started \<notin> set (snd (on_hotkey_released e s)) \<and>
         last (snd (on_hotkey_released e s)) =
           Notified ''SuperScribe''
             (if fst (transcribe_audio_file e (fs (fst (snd (stop_recording e (s\<lparr>recording := False\<rparr>))))) p) \<noteq> [] \<and>
                 \<not> startswith (fst (transcribe_audio_file e (fs (fst (snd (stop_recording e (s\<lparr>recording := False\<rparr>))))) p)) ''Error:''
              then ''Transcription completed and pasted at cursor position''
              else ''Transcription failed. Check log for details.'')"
proof -
  let ?w = "Wav_file channels sample_size rate (concat (frames s))"
  let ?files = "(fs s)(p \<mapsto> ?w)"
  have st: "fs (fst (snd (stop_recording e (s\<lparr>recording := False\<rparr>)))) = ?files"
    using stop_recording_file(1) [OF assms(2)] by simp
  have pm: "mime_type p = ''audio/wav''"
    using stop_recording_SomeD [OF assms(2)] recording_file_mime by simp
  have tr: "transcribe_audio_file e ?files p =
             (case service e of
                Raises m \<Rightarrow>
                  (''Error during transcription: '' @ m,
                   (if before_request e then [] else [Service_called ''audio/wav'' ?w]) @
                   [Logged ERROR (''Transcription error: '' @ m)])
              | No_text \<Rightarrow>
                  (''Error: Received invalid response from Gemini API'',
                   [Service_called ''audio/wav'' ?w,
                    Logged ERROR ''Error: Received invalid response from Gemini API''])
              | Text t \<Rightarrow> (t, [Service_called ''audio/wav'' ?w]))"
    by (subst transcribe_on_file [where f = ?w]) (simp_all add: pm split: reply.splits)
  have pe: "filter is_service_call (paste_text_at_cursor e x) = []"
    "Capture_thread_started \<notin> set (paste_text_at_cursor e x)" for x
    by (simp_all add: paste_text_at_cursor_def split: option.splits)
  show ?thesis
    unfolding st released_file_outcome [OF assms(1,2)] tr
    by (cases "service e") (simp_all add: pe)
qed

theorem C9_transcription_in_handler_witness:
  "recording captured_app \<and>
   fst (stop_recording quiet_env (captured_app\<lparr>recording := False\<rparr>)) =
     Some (os_path_join ''recordings'' ''recording_20240101_120000.wav'') \<and>
   filter is_service_call (snd (on_hotkey_released quiet_env captured_app)) =
     [Service_called ''audio/wav'' (Wav_file channels sample_size rate [1, 2, 3, 4, 5, 6, 7, 8])] \<and>
   Capture_thread_started \<notin> set (snd (on_hotkey_released quiet_env captured_app))"
proof -
  have h1: "recording captured_app"
    by (simp add: captured_app_eq)
  have h2: "fst (stop_recording quiet_env (captured_app\<lparr>recording := False\<rparr>)) =
              Some (os_path_join ''recordings'' ''recording_20240101_120000.wav'')"
    by (simp add: captured_app_eq eval_defs)
  have f: "concat (frames captured_app) = [1, 2, 3, 4, 5, 6, 7, 8]"
    by (simp add: captured_app_eq)
  have g: "\<not> (raises (service quiet_env) \<and> before_request quiet_env)"
    by (simp add: quiet_env_def)
  show ?thesis
    using C9_transcription_in_handler [OF h1 h2] h1 h2 f g by simp
qed

text \<open>
  The request to the service is among the calls of the handler itself, and the state
  that the handler returns depends on the service's answer: one history entry when the
  service returns a text, none when its response has no text.
\<close>

theorem C9_request_in_handler_counterexample:
  "recording captured_app \<and>
   fst (stop_recording quiet_env (captured_app\<lparr>recording := False\<rparr>)) =
     Some (os_path_join ''recordings'' ''recording_20240101_120000.wav'') \<and>
   Service_called ''audio/wav'' (Wav_file 1 2 44100 [1, 2, 3, 4, 5, 6, 7, 8])
     \<in> set (snd (on_hotkey_released quiet_env captured_app)) \<and>
   length (history (fst (on_hotkey_released quiet_env captured_app))) = 1 \<and>
   length (history (fst (on_hotkey_released (quiet_env\<lparr>service := No_text\<rparr>) captured_app))) = 0"
  by (simp add: captured_app_eq eval_defs)

text \<open>
  C10. When a file was produced, the controller decides on the returned string \<open>t\<close>
  alone. If \<open>t\<close> is not empty and does not start with \<^verbatim>\<open>Error:\<close>, one history
  entry with \<open>t\<close> is appended, \<^verbatim>\<open>paste_text_at_cursor\<close> is run on \<open>t\<close> (the
  clipboard is set if that call does not raise, the keystroke sent if neither call
  raises) and success is notified. Otherwise the history is unchanged, nothing is put
  on the clipboard or pasted, and failure is notified; this is so also for a
  transcript that itself starts with \<^verbatim>\<open>Error:\<close>. In every case \<open>t\<close> is a plain
  string: the service's text, or a message built from the failure.
\<close>
theorem C10_prefix_classification:
  assumes "recording s" and "fst (stop_recording e (s\<lparr>recording := False\<rparr>)) = Some p"
    and "t = fst (transcribe_audio_file e
                   ((fs s)(p \<mapsto> Wav_file channels sample_size rate (concat (frames s)))) p)"
  shows "(t \<noteq> [] \<and> \<not> startswith t ''Error:'' \<longrightarrow>
            history (fst (on_hotkey_released e s)) =
              history s @ [\<lparr>timestamp = now e, audio_file = p, transcription = t\<rparr>] \<and>
            (Clipboard_set t \<in> set (snd (on_hotkey_released e s)) \<longleftrightarrow> copy_fault e = None) \<and>
            (Paste_sent \<in> set (snd (on_hotkey_released e s)) \<longleftrightarrow>
               copy_fault e = None \<and> paste_fault e = None) \<and>
            filter is_notification (snd (on_hotkey_released e s)) =
              [Notified ''SuperScribe''
                 ''Transcription completed and pasted at cursor position'']) \<and>
         (t = [] \<or> startswith t ''Error:'' \<longrightarrow>
            history (fst (on_hotkey_released e s)) = history s \<and>
            (\<forall>x. Clipboard_set x \<notin> set (snd (on_hotkey_released e s))) \<and>
            Paste_sent \<notin> set (snd (on_hotkey_released e s)) \<and>
            filter is_notification (snd (on_hotkey_released e s)) =
              [Notified ''SuperScribe'' ''Transcription failed. Check log for details.'']) \<and>
         t = (case service e of
                Raises m \<Rightarrow> ''Error during transcription: '' @ m
              | No_text \<Rightarrow> ''Error: Received invalid response from Gemini API''
              | Text u \<Rightarrow> u)"
proof -
  let ?files = "(fs s)(p \<mapsto> Wav_file channels sample_size rate (concat (frames s)))"
  obtain ev2 where tr: "transcribe_audio_file e ?files p = (t, ev2)"
    using assms(3) by (cases "transcribe_audio_file e ?files p") simp
  have q: "filter is_notification ev2 = []" "Paste_sent \<notin> set ev2"
    "\<forall>x. Clipboard_set x \<notin> set ev2"
    using transcribe_events [of e ?files p] by (simp_all add: tr)
  note r = released_file_outcome [OF assms(1,2), unfolded tr prod.case]
  have a: "t \<noteq> [] \<and> \<not> startswith t ''Error:'' \<longrightarrow>
            history (fst (on_hotkey_released e s)) =
              history s @ [\<lparr>timestamp = now e, audio_file = p, transcription = t\<rparr>] \<and>
            (Clipboard_set t \<in> set (snd (on_hotkey_released e s)) \<longleftrightarrow> copy_fault e = None) \<and>
            (Paste_sent \<in> set (snd (on_hotkey_released e s)) \<longleftrightarrow>
               copy_fault e = None \<and> paste_fault e = None) \<and>
            filter is_notification (snd (on_hotkey_released e s)) =
              [Notified ''SuperScribe''
                 ''Transcription completed and pasted at cursor position'']"
    using q paste_events [of e t] by (simp add: r)
  have b: "t = [] \<or> startswith t ''Error:'' \<longrightarrow>
            history (fst (on_hotkey_released e s)) = history s \<and>
            (\<forall>x. Clipboard_set x \<notin> set (snd (on_hotkey_released e s))) \<and>
            Paste_sent \<notin> set (snd (on_hotkey_released e s)) \<and>
            filter is_notification (snd (on_hotkey_released e s)) =
              [Notified ''SuperScribe'' ''Transcription failed. Check log for details.'']"
    using q by (auto simp add: r)
  have c: "t = (case service e of
                Raises m \<Rightarrow> ''Error during transcription: '' @ m
              | No_text \<Rightarrow> ''Error: Received invalid response from Gemini API''
              | Text u \<Rightarrow> u)"
    unfolding assms(3)
    by (subst transcribe_on_file [where f = "Wav_file channels sample_size rate (concat (frames s))"])
       (simp_all split: reply.splits)
  from a b c show ?thesis
    by blast
qed

theorem C10_prefix_classification_witness:
  "recording captured_app \<and>
   fst (stop_recording quiet_env (captured_app\<lparr>recording := False\<rparr>)) =
     Some (os_path_join ''recordings'' ''recording_20240101_120000.wav'') \<and>
   fst (stop_recording (quiet_env\<lparr>service := Text ''Error: 404 is what the page said''\<rparr>)
          (captured_app\<lparr>recording := False\<rparr>)) =
     Some (os_path_join ''recordings'' ''recording_20240101_120000.wav'') \<and>
   \<not> startswith ''hello world'' ''Error:'' \<and>
   startswith ''Error: 404 is what the page said'' ''Error:'' \<and>
   history (fst (on_hotkey_released quiet_env captured_app)) =
     [\<lparr>timestamp = 7,
       audio_file = os_path_join ''recordings'' ''recording_20240101_120000.wav'',
       transcription = ''hello world''\<rparr>] \<and>
   Clipboard_set ''hello world'' \<in> set (snd (on_hotkey_released quiet_env captured_app)) \<and>
   history (fst (on_hotkey_released
                   (quiet_env\<lparr>service := Text ''Error: 404 is what the page said''\<rparr>)
                   captured_app)) = [] \<and>
   filter is_notification
     (snd (on_hotkey_released
             (quiet_env\<lparr>service := Text ''Error: 404 is what the page said''\<rparr>) captured_app)) =
     [Notified ''SuperScribe'' ''Transcription failed. Check log for details.'']"
proof -
  let ?p = "os_path_join ''recordings'' ''recording_20240101_120000.wav''"
  let ?files = "(fs captured_app)(?p \<mapsto>
                  Wav_file channels sample_size rate (concat (frames captured_app)))"
  let ?e = "quiet_env\<lparr>service := Text ''Error: 404 is what the page said''\<rparr>"
  have h1: "recording captured_app"
    by (simp add: captured_app_eq)
  have h2: "fst (stop_recording quiet_env (captured_app\<lparr>recording := False\<rparr>)) = Some ?p"
    by (simp add: captured_app_eq eval_defs)
  have h2': "fst (stop_recording ?e (captured_app\<lparr>recording := False\<rparr>)) = Some ?p"
    by (simp add: captured_app_eq eval_defs)
  have t1: "''hello world'' = fst (transcribe_audio_file quiet_env ?files ?p)"
    by (simp add: captured_app_eq eval_defs)
  have t2: "''Error: 404 is what the page said'' = fst (transcribe_audio_file ?e ?files ?p)"
    by (simp add: captured_app_eq eval_defs)
  have s1: "\<not> startswith ''hello world'' ''Error:''"
    and s2: "startswith ''Error: 404 is what the page said'' ''Error:''"
    by (simp_all add: startswith_def)
  have e: "history captured_app = [] \<and> now quiet_env = 7 \<and> copy_fault quiet_env = None"
    by (simp add: captured_app_eq quiet_env_def)
  show ?thesis
    using C10_prefix_classification [OF h1 h2 t1, THEN conjunct1]
          C10_prefix_classification [OF h1 h2' t2, THEN conjunct2, THEN conjunct1]
          h1 h2 h2' s1 s2 e
    by simp
qed

text \<open>
  Delivery does not follow from the test on the string alone: the returned string
  \<^verbatim>\<open>hello world\<close> is not empty and does not start with \<^verbatim>\<open>Error:\<close>, a history
  entry is appended, but the clipboard call raises and the text is neither put on the
  clipboard nor pasted.
\<close>

theorem C10_copy_fault_counterexample:
  "recording captured_app \<and>
   fst (stop_recording (quiet_env\<lparr>copy_fault := Some ''clipboard busy''\<rparr>)
          (captured_app\<lparr>recording := False\<rparr>)) =
     Some (os_path_join ''recordings'' ''recording_20240101_120000.wav'') \<and>
   service (quiet_env\<lparr>copy_fault := Some ''clipboard busy''\<rparr>) = Text ''hello world'' \<and>
   ''hello world'' \<noteq> [] \<and> \<not> startswith ''hello world'' ''Error:'' \<and>
   length (history (fst (on_hotkey_released (quiet_env\<lparr>copy_fault := Some ''clipboard busy''\<rparr>)
                           captured_app))) = 1 \<and>
   Clipboard_set ''hello world''
     \<notin> set (snd (on_hotkey_released (quiet_env\<lparr>copy_fault := Some ''clipboard busy''\<rparr>)
                    captured_app)) \<and>
   Paste_sent
     \<notin> set (snd (on_hotkey_released (quiet_env\<lparr>copy_fault := Some ''clipboard busy''\<rparr>)
                    captured_app))"
  by (simp add: captured_app_eq eval_defs)

end
